theory Spec2Isabelle
  imports Main "HOL-Library.Multiset"
begin

section \<open>herots: a TLS server bootstrap helper (herots.go)\<close>

text \<open>
  The package keeps a \<open>Server\<close> value and mutates it through its methods. The model
  passes the server explicitly and returns it updated. Everything outside the package
  that a method touches is made explicit as well:
  \<^item> the writers that receive log text, the calls to \<open>tls.Listen\<close> and the calls to the
    listener's \<open>Accept\<close> are recorded, in order, in a \<open>world\<close> value that is threaded
    through every method;
  \<^item> the functions of the Go standard library that the package calls
    (\<open>tls.X509KeyPair\<close>, \<open>pem.Decode\<close>, \<open>x509.ParseCertificate\<close>, \<open>tls.Listen\<close>,
    \<open>Listener.Accept\<close>) are fields of a record \<open>lib\<close> that every method takes as its
    first argument, so that every theorem holds for whatever these functions compute;
  \<^item> a Go \<open>error\<close> is \<open>string option\<close> (\<open>None\<close> is \<open>nil\<close>, \<open>Some m\<close> an error with
    message \<open>m\<close>), and a run-time panic is the outcome \<open>Panic\<close>.
\<close>

subsection \<open>Data\<close>

text \<open>Go's \<open>[]byte\<close>: a sequence of bytes (\<open>char\<close> is a byte).\<close>

type_synonym bytes = string

text \<open>
  An \<open>io.Writer\<close> that is not \<open>nil\<close>: \<open>os.Stdout\<close>, or a writer of the caller's. What
  is written to a writer is recorded in the world.
\<close>

datatype writer = Stdout | Writer nat

text \<open>\<open>tls.ClientAuthType\<close>, with the five constants of the library.\<close>

datatype ClientAuthType =
  NoClientCert | RequestClientCert | RequireAnyClientCert
  | VerifyClientCertIfGiven | RequireAndVerifyClientCert

text \<open>
  The \<open>Options\<close> struct. \<open>Port\<close> and \<open>LogLevel\<close> are Go \<open>int\<close>s; the package only
  compares them and prints the port, it does no arithmetic on them, so they are \<open>int\<close>
  here. \<open>LogDestination\<close> is \<open>None\<close> for a \<open>nil\<close> writer; no method reads the field.
  A \<open>*Options\<close> is taken to point to a record (\<open>Config(nil)\<close> is not modelled).
\<close>

record Options =
  Host :: string
  Port :: int
  LogLevel :: int
  LogDestination :: "writer option"
  TLSAuthType :: ClientAuthType

text \<open>
  \<open>tls.Certificate\<close>: the chain of DER certificates and the private key. Its zero value
  has an empty chain.
\<close>

record tls_Certificate =
  Certificate :: "bytes list"
  PrivateKey :: bytes

text \<open>A parsed \<open>x509.Certificate\<close>, identified by its raw DER bytes.\<close>

datatype x509_Certificate = X509 (Raw: bytes)

record pem_Block =
  Type :: string
  Bytes :: bytes

text \<open>
  Modelled from the spec: \<open>x509.CertPool\<close> is a type of the Go standard library, not of
  this package. The spec's data model calls the trusted-client pool a mutable set of
  trusted CA certificates; the model keeps the entries in the order of their insertion,
  \<open>NewCertPool\<close> is the empty pool and \<open>AddCert\<close> leaves the pool as it is when the
  certificate is already an entry (the library checks that a certificate is not added
  twice). A \<open>*x509.CertPool\<close> is \<open>CertPool option\<close>, \<open>None\<close> being the \<open>nil\<close> pointer.
\<close>

type_synonym CertPool = "x509_Certificate list"

definition NewCertPool :: CertPool where
  "NewCertPool = []"

definition AddCert :: "x509_Certificate \<Rightarrow> CertPool \<Rightarrow> CertPool" where
  "AddCert ca p = (if ca \<in> set p then p else p @ [ca])"

text \<open>
  The \<open>tls.Config\<close> that \<open>Start\<close> builds (its \<open>Rand\<close> is always \<open>rand.Reader\<close> and is
  left out). The pool is taken by value, as it is when \<open>Start\<close> runs.
\<close>

record tls_Config =
  ClientAuth :: ClientAuthType
  Certificates :: "tls_Certificate list"
  ClientCAs :: "CertPool option"

datatype net_Listener = Listener nat

record net_Conn =
  RemoteAddr :: string

text \<open>
  The \<open>Server\<close> struct. The nested anonymous structs \<open>certs\<close> and \<open>certs.pool\<close> are
  flattened: \<open>Cert\<close> is \<open>certs.Cert\<close>, \<open>IsSet\<close> is \<open>certs.pool.IsSet\<close> and \<open>Pool\<close> is
  \<open>certs.pool.Pool\<close>. The \<open>listener\<close> is \<open>None\<close> while the interface value is \<open>nil\<close>.
\<close>

record Server =
  options :: Options
  Cert :: tls_Certificate
  IsSet :: bool
  Pool :: "CertPool option"
  listener :: "net_Listener option"
  logDestination :: writer

text \<open>
  What the package has done to its environment so far: the texts written to writers,
  the calls of \<open>tls.Listen\<close> (network, address, configuration) and the calls of
  \<open>Accept\<close>, each in the order of the calls.
\<close>

record world =
  written :: "(writer \<times> string) list"
  listens :: "(string \<times> string \<times> tls_Config) list"
  accepts :: "net_Listener list"

definition world0 :: world where
  "world0 = \<lparr>written = [], listens = [], accepts = []\<rparr>"

text \<open>
  The standard library, as the package uses it. \<open>pem_Decode\<close> gives the first block
  only (the package drops the rest of the input); \<open>None\<close> is the \<open>nil\<close> block returned
  when the input holds no PEM data. The network functions may answer differently from
  call to call, so they read the world.
\<close>

record lib =
  tls_X509KeyPair :: "bytes \<Rightarrow> bytes \<Rightarrow> string + tls_Certificate"
  pem_Decode :: "bytes \<Rightarrow> pem_Block option"
  x509_ParseCertificate :: "bytes \<Rightarrow> string + x509_Certificate"
  tls_Listen :: "world \<Rightarrow> string \<Rightarrow> string \<Rightarrow> tls_Config \<Rightarrow> string + net_Listener"
  Listener_Accept :: "world \<Rightarrow> net_Listener \<Rightarrow> string + net_Conn"

datatype 'a outcome = Panic | Return 'a

type_synonym error = "string option"

subsection \<open>Error messages\<close>

definition LoadKeyPairError :: string where
  "LoadKeyPairError = ''herots: load key pair error''"

definition LoadClientCaCertError :: string where
  "LoadClientCaCertError = ''herots srv: load client CA cert error''"

definition StartServerError :: string where
  "StartServerError = ''herots srv: start tls server error''"

definition NoKeyPairLoad :: string where
  "NoKeyPairLoad = ''herots: no load key pair (use LoadKeyPair func)''"

definition AcceptConnError :: string where
  "AcceptConnError = ''herots srv: connection accept error''"

definition newline :: string where
  "newline = [CHR 0x0A]"

text \<open>\<open>fmt.Errorf("%s: %v\n", c, err)\<close> and \<open>fmt.Errorf("%s\n", c)\<close>.\<close>

definition Errorf2 :: "string \<Rightarrow> string \<Rightarrow> error" where
  "Errorf2 c err = Some (c @ '': '' @ err @ newline)"

definition Errorf1 :: "string \<Rightarrow> error" where
  "Errorf1 c = Some (c @ newline)"

subsection \<open>Construction and logging\<close>

definition NewServer :: Server where
  "NewServer =
     \<lparr>options = \<lparr>Host = ''127.0.0.1'', Port = 9000, LogLevel = 0,
                  LogDestination = None, TLSAuthType = RequireAnyClientCert\<rparr>,
      Cert = \<lparr>Certificate = [], PrivateKey = []\<rparr>,
      IsSet = False,
      Pool = None,
      listener = None,
      logDestination = Stdout\<rparr>"

text \<open>\<open>fmt.Fprintf(dst, "herots srv: %s\n", m)\<close>: one write to \<open>dst\<close>.\<close>

definition Fprintf :: "writer \<Rightarrow> string \<Rightarrow> world \<Rightarrow> world" where
  "Fprintf dst m w = w\<lparr>written := written w @ [(dst, ''herots srv: '' @ m @ newline)]\<rparr>"

definition log :: "string \<Rightarrow> int \<Rightarrow> Server \<Rightarrow> world \<Rightarrow> world" where
  "log m lvl h w =
     (if LogLevel (options h) = 0 then w
      else if LogLevel (options h) \<le> lvl then Fprintf (logDestination h) m w
      else w)"

definition SetMessagesDst :: "writer \<Rightarrow> Server \<Rightarrow> Server" where
  "SetMessagesDst dst h = h\<lparr>logDestination := dst\<rparr>"

subsection \<open>Config\<close>

definition port_zero_msg :: string where
  "port_zero_msg = ''port can't be '0'' @ [CHR 0x27]"

definition port_default_msg :: string where
  "port_default_msg = ''set port by default (9000)''"

text \<open>
  \<open>Config\<close> logs through the options the server holds when it is called, and only then
  stores the new ones. It writes \<open>o.Port\<close> through the caller's pointer; the stored
  options are that same record.
\<close>

definition Config :: "Options \<Rightarrow> Server \<Rightarrow> world \<Rightarrow> Server \<times> world" where
  "Config o' h w =
     (if Port o' = 0
      then (let w1 = log port_zero_msg 2 h w;
                w2 = log port_default_msg 2 h w1
            in (h\<lparr>options := o'\<lparr>Port := 9000\<rparr>\<rparr>, w2))
      else (h\<lparr>options := o'\<rparr>, w))"

subsection \<open>LoadKeyPair and AddClientCACert\<close>

text \<open>
  \<open>LoadKeyPair\<close> replaces the pool by a new one before it parses anything, stores the
  key pair as soon as \<open>tls.X509KeyPair\<close> accepts it, and only then decodes the first PEM
  block of the certificate input again. \<open>pemData.Bytes\<close> on a \<open>nil\<close> block is a nil
  pointer dereference.
\<close>

definition LoadKeyPair ::
  "lib \<Rightarrow> bytes \<Rightarrow> bytes \<Rightarrow> Server \<Rightarrow> world \<Rightarrow> error outcome \<times> Server \<times> world" where
  "LoadKeyPair L cert key h w =
     (let h1 = h\<lparr>Pool := Some NewCertPool\<rparr> in
      case tls_X509KeyPair L cert key of
        Inl err \<Rightarrow> (Return (Errorf2 LoadKeyPairError err), h1, w)
      | Inr c \<Rightarrow>
          (let h2 = h1\<lparr>Cert := c\<rparr> in
           case pem_Decode L cert of
             None \<Rightarrow> (Panic, h2, w)
           | Some pemData \<Rightarrow>
               (case x509_ParseCertificate L (Bytes pemData) of
                  Inl err \<Rightarrow> (Return (Errorf2 LoadKeyPairError err), h2, w)
                | Inr ca \<Rightarrow>
                    (case Pool h2 of
                       None \<Rightarrow> (Panic, h2, w)
                     | Some p \<Rightarrow>
                         (let h3 = h2\<lparr>Pool := Some (AddCert ca p), IsSet := True\<rparr>
                          in (Return None, h3, log ''load key pair ok'' 2 h3 w))))))"

text \<open>
  \<open>AddClientCACert\<close> dereferences the decoded block, then the pool: \<open>AddCert\<close> on a
  \<open>nil\<close> pool is a nil pointer dereference too.
\<close>

definition AddClientCACert ::
  "lib \<Rightarrow> bytes \<Rightarrow> Server \<Rightarrow> world \<Rightarrow> error outcome \<times> Server \<times> world" where
  "AddClientCACert L cert h w =
     (case pem_Decode L cert of
        None \<Rightarrow> (Panic, h, w)
      | Some pemData \<Rightarrow>
          (case x509_ParseCertificate L (Bytes pemData) of
             Inl err \<Rightarrow> (Return (Errorf2 LoadClientCaCertError err), h, w)
           | Inr ca \<Rightarrow>
               (case Pool h of
                  None \<Rightarrow> (Panic, h, w)
                | Some p \<Rightarrow>
                    (let h1 = h\<lparr>Pool := Some (AddCert ca p)\<rparr>
                     in (Return None, h1, log ''load client CA cert ok'' 2 h1 w)))))"

text \<open>Several calls of \<open>AddClientCACert\<close> in a row, whatever each one returns.\<close>

fun AddClientCACerts ::
  "lib \<Rightarrow> bytes list \<Rightarrow> Server \<Rightarrow> world \<Rightarrow> error outcome list \<times> Server \<times> world" where
  "AddClientCACerts L [] h w = ([], h, w)"
| "AddClientCACerts L (cert # certs) h w =
     (case AddClientCACert L cert h w of
        (r, h1, w1) \<Rightarrow>
          (case AddClientCACerts L certs h1 w1 of
             (rs, h2, w2) \<Rightarrow> (r # rs, h2, w2)))"

subsection \<open>Accept and Start\<close>

text \<open>
  \<open>Accept\<close> calls the method of the listener; on a \<open>nil\<close> listener that call panics. On
  an error the connection returned is the library's \<open>nil\<close>.
\<close>

definition Accept ::
  "lib \<Rightarrow> Server \<Rightarrow> world \<Rightarrow> (net_Conn option \<times> error) outcome \<times> Server \<times> world" where
  "Accept L h w =
     (case listener h of
        None \<Rightarrow> (Panic, h, w)
      | Some l \<Rightarrow>
          (let w1 = w\<lparr>accepts := accepts w @ [l]\<rparr> in
           case Listener_Accept L w l of
             Inl err \<Rightarrow>
               (Return (None, Errorf2 AcceptConnError err), h,
                log (''accept conn error: '' @ err) 3 h w1)
           | Inr conn \<Rightarrow>
               (Return (Some conn, None), h,
                log (''accepted conn from '' @ RemoteAddr conn) 2 h w1)))"

text \<open>\<open>strconv.Itoa\<close>: the decimal digits, with a minus sign for a negative number.\<close>

fun digits :: "nat \<Rightarrow> string" where
  "digits n =
     (if n < 10 then [char_of (48 + n)]
      else digits (n div 10) @ [char_of (48 + n mod 10)])"

declare digits.simps [simp del]

definition Itoa :: "int \<Rightarrow> string" where
  "Itoa i = (if i < 0 then CHR ''-'' # digits (nat (- i)) else digits (nat i))"

definition Start :: "lib \<Rightarrow> Server \<Rightarrow> world \<Rightarrow> error outcome \<times> Server \<times> world" where
  "Start L h w =
     (if length (Certificate (Cert h)) = 0 then (Return (Errorf1 NoKeyPairLoad), h, w)
      else
        (let config = \<lparr>ClientAuth = TLSAuthType (options h),
                       Certificates = [Cert h],
                       ClientCAs = Pool h\<rparr>;
             service = Host (options h) @ '':'' @ Itoa (Port (options h));
             w1 = w\<lparr>listens := listens w @ [(''tcp'', service, config)]\<rparr>
         in case tls_Listen L w ''tcp'' service config of
              Inl err \<Rightarrow> (Return (Errorf2 StartServerError err), h, w1)
            | Inr l \<Rightarrow>
                (let h1 = h\<lparr>listener := Some l\<rparr>
                 in (Return None, h1, log (''listening on '' @ service) 2 h1 w1))))"

subsection \<open>States a program can reach\<close>

text \<open>
  A server starts as \<open>NewServer\<close> in a world where nothing has happened yet, and changes
  only through the exported methods.
\<close>

inductive reachable :: "lib \<Rightarrow> Server \<Rightarrow> world \<Rightarrow> bool" for L :: lib where
  reach_new: "reachable L NewServer world0"
| reach_dst: "reachable L h w \<Longrightarrow> reachable L (SetMessagesDst dst h) w"
| reach_config: "reachable L h w \<Longrightarrow> Config o' h w = (h', w') \<Longrightarrow> reachable L h' w'"
| reach_load:
    "reachable L h w \<Longrightarrow> LoadKeyPair L cert key h w = (r, h', w') \<Longrightarrow> reachable L h' w'"
| reach_add:
    "reachable L h w \<Longrightarrow> AddClientCACert L cert h w = (r, h', w') \<Longrightarrow> reachable L h' w'"
| reach_start: "reachable L h w \<Longrightarrow> Start L h w = (r, h', w') \<Longrightarrow> reachable L h' w'"
| reach_accept: "reachable L h w \<Longrightarrow> Accept L h w = (ra, h', w') \<Longrightarrow> reachable L h' w'"

text \<open>
  What the package relies on from \<open>tls.X509KeyPair\<close>: a key pair it accepts has at least
  one certificate in its chain (the library fails when it finds no \<open>CERTIFICATE\<close> block).
\<close>

definition keypair_has_chain :: "lib \<Rightarrow> bool" where
  "keypair_has_chain L =
     (\<forall>cert key c. tls_X509KeyPair L cert key = Inr c \<longrightarrow> Certificate c \<noteq> [])"

text \<open>
  The certificate that a PEM input stands for in \<open>LoadKeyPair\<close> and \<open>AddClientCACert\<close>:
  its first PEM block, parsed as X.509. \<open>None\<close> when there is no block or it does not
  parse.
\<close>

definition first_certificate :: "lib \<Rightarrow> bytes \<Rightarrow> x509_Certificate option" where
  "first_certificate L cert =
     (case pem_Decode L cert of
        None \<Rightarrow> None
      | Some pemData \<Rightarrow>
          (case x509_ParseCertificate L (Bytes pemData) of
             Inl err \<Rightarrow> None
           | Inr ca \<Rightarrow> Some ca))"

subsection \<open>A small stand-in for the library\<close>

text \<open>
  A table-driven library for running the methods on concrete inputs: three certificate
  inputs \<open>certA\<close>, \<open>certB\<close> and \<open>certC\<close>, each one PEM block holding a certificate; the
  keys \<open>keyA\<close> and \<open>keyB\<close> that match the first two; and \<open>note+certA\<close>, where a block
  that is no certificate comes before the certificate of \<open>certA\<close> (\<open>tls.X509KeyPair\<close>
  skips such a block, \<open>pem.Decode\<close> returns it). Every other input holds no PEM data.
  Listening fails on an address that was asked for before; the first \<open>Accept\<close> gives
  a connection and every later one fails.
\<close>

definition stub_X509KeyPair :: "bytes \<Rightarrow> bytes \<Rightarrow> string + tls_Certificate" where
  "stub_X509KeyPair cert key =
     (if (cert = ''certA'' \<or> cert = ''note+certA'') \<and> key = ''keyA''
      then Inr \<lparr>Certificate = [''derA''], PrivateKey = ''keyA''\<rparr>
      else if cert = ''certB'' \<and> key = ''keyB''
      then Inr \<lparr>Certificate = [''derB''], PrivateKey = ''keyB''\<rparr>
      else if cert = ''certA'' \<or> cert = ''certB'' \<or> cert = ''certC'' \<or> cert = ''note+certA''
      then Inl ''tls: private key does not match public key''
      else Inl ''tls: failed to find any PEM data in certificate input'')"

definition stub_Decode :: "bytes \<Rightarrow> pem_Block option" where
  "stub_Decode d =
     (if d = ''certA'' then Some \<lparr>Type = ''CERTIFICATE'', Bytes = ''derA''\<rparr>
      else if d = ''certB'' then Some \<lparr>Type = ''CERTIFICATE'', Bytes = ''derB''\<rparr>
      else if d = ''certC'' then Some \<lparr>Type = ''CERTIFICATE'', Bytes = ''derC''\<rparr>
      else if d = ''note+certA'' then Some \<lparr>Type = ''NOTE'', Bytes = ''note''\<rparr>
      else None)"

definition stub_ParseCertificate :: "bytes \<Rightarrow> string + x509_Certificate" where
  "stub_ParseCertificate der =
     (if der = ''derA'' \<or> der = ''derB'' \<or> der = ''derC'' then Inr (X509 der)
      else Inl ''x509: malformed certificate'')"

definition stub_Listen ::
  "world \<Rightarrow> string \<Rightarrow> string \<Rightarrow> tls_Config \<Rightarrow> string + net_Listener" where
  "stub_Listen w network address config =
     (if address \<in> set (map (\<lambda>(n, a, c). a) (listens w))
      then Inl ''listen tcp: address already in use''
      else Inr (Listener (length (listens w))))"

definition stub_Accept :: "world \<Rightarrow> net_Listener \<Rightarrow> string + net_Conn" where
  "stub_Accept w l =
     (if accepts w = [] then Inr \<lparr>RemoteAddr = ''192.0.2.7:40000''\<rparr>
      else Inl ''use of closed network connection'')"

definition stub_lib :: lib where
  "stub_lib =
     \<lparr>tls_X509KeyPair = stub_X509KeyPair,
      pem_Decode = stub_Decode,
      x509_ParseCertificate = stub_ParseCertificate,
      tls_Listen = stub_Listen,
      Listener_Accept = stub_Accept\<rparr>"

text \<open>A server whose options are the defaults but for the log level.\<close>

definition server_at_level :: "int \<Rightarrow> Server" where
  "server_at_level l = NewServer\<lparr>options := (options NewServer)\<lparr>LogLevel := l\<rparr>\<rparr>"

text \<open>
  States of a server run against the stand-in library: \<open>loaded_A\<close> after a successful
  \<open>LoadKeyPair\<close> of \<open>certA\<close> and \<open>keyA\<close> on a new server; \<open>loaded_A_added_C\<close> after
  \<open>certC\<close> was then added as a client CA; \<open>reloaded_B\<close> after \<open>certB\<close> and \<open>keyB\<close> were
  loaded on top of that; \<open>half_loaded\<close> after \<open>LoadKeyPair\<close> of \<open>note+certA\<close> and
  \<open>keyA\<close> on a new server.
\<close>

definition loaded_A :: "Server \<times> world" where
  "loaded_A = snd (LoadKeyPair stub_lib ''certA'' ''keyA'' NewServer world0)"

definition loaded_A_added_C :: "Server \<times> world" where
  "loaded_A_added_C = snd (AddClientCACerts stub_lib [''certC''] (fst loaded_A) (snd loaded_A))"

definition reloaded_B :: "Server \<times> world" where
  "reloaded_B =
     snd (LoadKeyPair stub_lib ''certB'' ''keyB'' (fst loaded_A_added_C) (snd loaded_A_added_C))"

definition half_loaded :: "Server \<times> world" where
  "half_loaded = snd (LoadKeyPair stub_lib ''note+certA'' ''keyA'' NewServer world0)"

text \<open>
  \<open>started_A\<close> after \<open>Start\<close> in \<open>loaded_A\<close>, and \<open>accepted_A\<close> after one \<open>Accept\<close> on
  top of that.
\<close>

definition started_A :: "Server \<times> world" where
  "started_A = snd (Start stub_lib (fst loaded_A) (snd loaded_A))"

definition accepted_A :: "Server \<times> world" where
  "accepted_A = snd (Accept stub_lib (fst started_A) (snd started_A))"

section \<open>Properties\<close>

subsection \<open>What log writes\<close>

lemma log_written:
  "written (log m lvl h w) =
     (if LogLevel (options h) \<noteq> 0 \<and> LogLevel (options h) \<le> lvl
      then written w @ [(logDestination h, ''herots srv: '' @ m @ newline)]
      else written w)"
  by (simp add: log_def Fprintf_def)

lemma log_listens [simp]: "listens (log m lvl h w) = listens w"
  by (simp add: log_def Fprintf_def)

lemma log_accepts [simp]: "accepts (log m lvl h w) = accepts w"
  by (simp add: log_def Fprintf_def)

lemma log_level0 [simp]: "LogLevel (options h) = 0 \<Longrightarrow> log m lvl h w = w"
  by (simp add: log_def)

text \<open>
  C1. The claim reads the configured level as a ceiling: a message of severity \<open>lvl\<close>
  is written if and only if the level \<open>L\<close> is not zero and \<open>lvl \<le> L\<close>, so that level 3
  writes notices, info and errors and level 1 writes notices only; the comment on
  \<open>Options.LogLevel\<close> says the same (each level includes the messages of the previous
  one). The code compares the other way round (\<open>L \<le> lvl\<close>). At level 3 the info
  message of a successful \<open>LoadKeyPair\<close> (severity 2) is not written, and at level 1
  the error message of \<open>Accept\<close> (severity 3) is written.
\<close>

theorem log_ceiling_fails:
  "written (log ''load key pair ok'' 2 (server_at_level 3) world0) = []
   \<and> written (log ''accept conn error: EOF'' 3 (server_at_level 1) world0)
       = [(Stdout, ''herots srv: accept conn error: EOF'' @ newline)]"
  by (simp add: log_written server_at_level_def NewServer_def world0_def)

subsection \<open>Config\<close>

text \<open>
  C2, as stated, fails: with the port 0 and the log level 2 (on the server and in the new
  options alike) \<open>Config\<close> writes two lines, not exactly one.
\<close>

theorem Config_port_zero_counterexample:
  "Port ((options NewServer)\<lparr>Port := 0, LogLevel := 2\<rparr>) = 0
   \<and> LogLevel (options (server_at_level 2)) = 2
   \<and> LogLevel ((options NewServer)\<lparr>Port := 0, LogLevel := 2\<rparr>) = 2
   \<and> written world0 = []
   \<and> written (snd (Config ((options NewServer)\<lparr>Port := 0, LogLevel := 2\<rparr>)
                           (server_at_level 2) world0)) =
        [(Stdout, ''herots srv: '' @ port_zero_msg @ newline),
         (Stdout, ''herots srv: '' @ port_default_msg @ newline)]
   \<and> length (written (snd (Config ((options NewServer)\<lparr>Port := 0, LogLevel := 2\<rparr>)
                                   (server_at_level 2) world0))) \<noteq> 1"
  by (simp add: Config_def log_written server_at_level_def NewServer_def world0_def)

text \<open>
  C2, amended. For every options record with port 0, \<open>Config\<close> stores the record with
  the port set to 9000; when the log level the server holds as the call begins is 2 it
  writes exactly two lines to the log destination (that the port cannot be 0, and that
  the default 9000 is set), and when that level is 0 it writes nothing.
\<close>

theorem Config_port_zero:
  assumes "Port o' = 0" and "Config o' h w = (h', w')"
  shows "options h' = o'\<lparr>Port := 9000\<rparr> \<and> Port (options h') = 9000
    \<and> (LogLevel (options h) = 2 \<longrightarrow>
          written w' = written w @
            [(logDestination h, ''herots srv: '' @ port_zero_msg @ newline),
             (logDestination h, ''herots srv: '' @ port_default_msg @ newline)])
    \<and> (LogLevel (options h) = 0 \<longrightarrow> written w' = written w)"
  using assms by (auto simp: Config_def Let_def log_written)

theorem Config_port_zero_witness:
  "Port ((options NewServer)\<lparr>Port := 0\<rparr>) = 0
   \<and> Port (options (fst (Config ((options NewServer)\<lparr>Port := 0\<rparr>)
                                 (server_at_level 2) world0))) = 9000
   \<and> written (snd (Config ((options NewServer)\<lparr>Port := 0\<rparr>) (server_at_level 2) world0)) =
        [(Stdout, ''herots srv: '' @ port_zero_msg @ newline),
         (Stdout, ''herots srv: '' @ port_default_msg @ newline)]"
  using Config_port_zero [of "(options NewServer)\<lparr>Port := 0\<rparr>" "server_at_level 2" world0
      "fst (Config ((options NewServer)\<lparr>Port := 0\<rparr>) (server_at_level 2) world0)"
      "snd (Config ((options NewServer)\<lparr>Port := 0\<rparr>) (server_at_level 2) world0)"]
  by (simp add: server_at_level_def NewServer_def world0_def)

subsection \<open>What the methods do, case by case\<close>

lemma LoadKeyPair_success:
  assumes "tls_X509KeyPair L cert key = Inr c" and "first_certificate L cert = Some ca"
  shows "LoadKeyPair L cert key h w =
     (Return None, h\<lparr>Cert := c, IsSet := True, Pool := Some [ca]\<rparr>,
      log ''load key pair ok'' 2 h w)"
  using assms
  by (auto simp: LoadKeyPair_def first_certificate_def NewCertPool_def AddCert_def log_def Let_def
           split: option.splits sum.splits)

lemma LoadKeyPair_success_only:
  assumes "LoadKeyPair L cert key h w = (Return None, h', w')"
  shows "\<exists>c ca. tls_X509KeyPair L cert key = Inr c \<and> first_certificate L cert = Some ca"
  using assms
  by (auto simp: LoadKeyPair_def first_certificate_def Errorf2_def Let_def
           split: option.splits sum.splits)

lemma LoadKeyPair_frame:
  assumes "LoadKeyPair L cert key h w = (r, h', w')"
  shows "options h' = options h \<and> listener h' = listener h
     \<and> logDestination h' = logDestination h
     \<and> listens w' = listens w \<and> accepts w' = accepts w
     \<and> (Cert h' = Cert h \<or> tls_X509KeyPair L cert key = Inr (Cert h'))"
  using assms
  by (auto simp: LoadKeyPair_def NewCertPool_def Let_def split: option.splits sum.splits)

lemma AddClientCACert_frame:
  assumes "AddClientCACert L cert h w = (r, h', w')"
  shows "options h' = options h \<and> listener h' = listener h
     \<and> logDestination h' = logDestination h \<and> Cert h' = Cert h
     \<and> listens w' = listens w \<and> accepts w' = accepts w"
  using assms
  by (auto simp: AddClientCACert_def Let_def split: option.splits sum.splits)

lemma reachable_no_listener:
  assumes "keypair_has_chain L" and "reachable L h w"
  shows "Certificate (Cert h) = [] \<longrightarrow> listener h = None \<and> listens w = []"
  using assms(2)
proof (induction rule: reachable.induct)
  case reach_new
  show ?case by (simp add: NewServer_def world0_def)
next
  case (reach_dst h w dst)
  then show ?case by (simp add: SetMessagesDst_def)
next
  case (reach_config h w o' h' w')
  then show ?case by (auto simp: Config_def Let_def split: if_splits)
next
  case (reach_load h w cert key r h' w')
  from LoadKeyPair_frame [OF reach_load.hyps(2)] assms(1) reach_load.IH
  show ?case by (auto simp: keypair_has_chain_def)
next
  case (reach_add h w cert r h' w')
  from AddClientCACert_frame [OF reach_add.hyps(2)] reach_add.IH
  show ?case by simp
next
  case (reach_start h w r h' w')
  then show ?case by (auto simp: Start_def Let_def split: if_splits sum.splits)
next
  case (reach_accept h w ra h' w')
  then show ?case by (auto simp: Accept_def Let_def split: option.splits sum.splits)
qed

lemma AddClientCACert_success:
  assumes "first_certificate L cert = Some ca" and "Pool h = Some p"
  shows "AddClientCACert L cert h w =
     (Return None, h\<lparr>Pool := Some (AddCert ca p)\<rparr>, log ''load client CA cert ok'' 2 h w)"
  using assms
  by (auto simp: AddClientCACert_def first_certificate_def Let_def log_def
           split: option.splits sum.splits)

subsection \<open>The stand-in library on its inputs\<close>

lemma stub_has_chain: "keypair_has_chain stub_lib"
  by (auto simp: keypair_has_chain_def stub_lib_def stub_X509KeyPair_def split: if_splits)

lemma stub_first_certificate:
  "first_certificate stub_lib ''certA'' = Some (X509 ''derA'')"
  "first_certificate stub_lib ''certB'' = Some (X509 ''derB'')"
  "first_certificate stub_lib ''certC'' = Some (X509 ''derC'')"
  "first_certificate stub_lib ''note+certA'' = None"
  "first_certificate stub_lib [] = None"
  by (simp_all add: first_certificate_def stub_lib_def stub_Decode_def stub_ParseCertificate_def)

lemma stub_key_pairs:
  "tls_X509KeyPair stub_lib ''certA'' ''keyA'' = Inr \<lparr>Certificate = [''derA''], PrivateKey = ''keyA''\<rparr>"
  "tls_X509KeyPair stub_lib ''certB'' ''keyB'' = Inr \<lparr>Certificate = [''derB''], PrivateKey = ''keyB''\<rparr>"
  "tls_X509KeyPair stub_lib ''note+certA'' ''keyA'' = Inr \<lparr>Certificate = [''derA''], PrivateKey = ''keyA''\<rparr>"
  "tls_X509KeyPair stub_lib ''certA'' ''keyB'' = Inl ''tls: private key does not match public key''"
  by (simp_all add: stub_lib_def stub_X509KeyPair_def)

lemma loaded_A_eq:
  "loaded_A =
     (NewServer\<lparr>Cert := \<lparr>Certificate = [''derA''], PrivateKey = ''keyA''\<rparr>, IsSet := True,
                 Pool := Some [X509 ''derA'']\<rparr>, world0)"
  by (simp add: loaded_A_def LoadKeyPair_success [OF stub_key_pairs(1) stub_first_certificate(1)]
        NewServer_def)

lemma stub_note_block:
  "pem_Decode stub_lib ''note+certA'' = Some \<lparr>Type = ''NOTE'', Bytes = ''note''\<rparr>"
  "x509_ParseCertificate stub_lib (Bytes \<lparr>Type = ''NOTE'', Bytes = ''note''\<rparr>)
     = Inl ''x509: malformed certificate''"
  "x509_ParseCertificate stub_lib ''note'' = Inl ''x509: malformed certificate''"
  by (simp_all add: stub_lib_def stub_Decode_def stub_ParseCertificate_def)

lemma loaded_A_added_C_eq:
  "loaded_A_added_C =
     (NewServer\<lparr>Cert := \<lparr>Certificate = [''derA''], PrivateKey = ''keyA''\<rparr>, IsSet := True,
                 Pool := Some [X509 ''derA'', X509 ''derC'']\<rparr>, world0)"
  by (simp add: loaded_A_added_C_def loaded_A_eq AddCert_def NewServer_def
        AddClientCACert_success [OF stub_first_certificate(3)])

lemma started_A_eq:
  "started_A =
     ((fst loaded_A)\<lparr>listener := Some (Listener 0)\<rparr>,
      world0\<lparr>listens := [(''tcp'', ''127.0.0.1:'' @ Itoa 9000,
                 \<lparr>ClientAuth = RequireAnyClientCert,
                  Certificates = [\<lparr>Certificate = [''derA''], PrivateKey = ''keyA''\<rparr>],
                  ClientCAs = Some [X509 ''derA'']\<rparr>)]\<rparr>)"
  by (simp add: started_A_def loaded_A_eq Start_def NewServer_def world0_def stub_lib_def
        stub_Listen_def Let_def)

lemma accepted_A_eq:
  "accepted_A =
     (fst started_A, (snd started_A)\<lparr>accepts := [Listener 0]\<rparr>)"
  by (simp add: accepted_A_def started_A_eq loaded_A_eq Accept_def NewServer_def world0_def
        stub_lib_def stub_Accept_def Let_def)

subsection \<open>AddClientCACert on an input without PEM data\<close>

text \<open>
  C4. The claim says that \<open>AddClientCACert\<close> never panics and that an input holding no
  valid PEM block gives the parse-failure error. On such an input \<open>pem.Decode\<close> returns
  a \<open>nil\<close> block, and the method reads \<open>pemData.Bytes\<close> without a check: a nil pointer
  dereference, in every state of the server. The method returns no error and changes
  nothing.
\<close>

theorem AddClientCACert_no_pem_data:
  assumes "pem_Decode L cert = None"
  shows "AddClientCACert L cert h w = (Panic, h, w)"
  using assms by (simp add: AddClientCACert_def)

theorem AddClientCACert_no_pem_data_witness:
  "pem_Decode stub_lib [] = None
   \<and> AddClientCACert stub_lib [] (fst loaded_A) (snd loaded_A)
        = (Panic, fst loaded_A, snd loaded_A)"
proof -
  have d: "pem_Decode stub_lib [] = None"
    by (simp add: stub_lib_def stub_Decode_def)
  from AddClientCACert_no_pem_data [OF d, of "fst loaded_A" "snd loaded_A"] d
  show ?thesis by simp
qed

subsection \<open>Start without credentials\<close>

text \<open>
  C5. In every state whose stored certificate chain is empty, \<open>Start\<close> returns the
  \<open>NoKeyPairLoad\<close> error at once: the server and the world are what they were, so
  \<open>tls.Listen\<close> was not called and nothing was written. In a state that a program can
  reach (with a library whose accepted key pairs have a chain) an empty chain also means
  that the server holds no listener and that \<open>tls.Listen\<close> was never called, so no
  listening socket exists afterward.
\<close>

theorem Start_without_credentials:
  assumes "Certificate (Cert h) = []"
  shows "Start L h w = (Return (Errorf1 NoKeyPairLoad), h, w)
     \<and> (keypair_has_chain L \<and> reachable L h w \<longrightarrow> listener h = None \<and> listens w = [])"
  using assms reachable_no_listener [of L h w] by (simp add: Start_def)

theorem Start_without_credentials_witness:
  "Certificate (Cert NewServer) = []
   \<and> keypair_has_chain stub_lib \<and> reachable stub_lib NewServer world0
   \<and> Start stub_lib NewServer world0 = (Return (Errorf1 NoKeyPairLoad), NewServer, world0)
   \<and> listener NewServer = None \<and> listens world0 = []"
proof -
  have c: "Certificate (Cert NewServer) = []" by (simp add: NewServer_def)
  show ?thesis
    using Start_without_credentials [OF c, of stub_lib world0] stub_has_chain
      reachable.reach_new [of stub_lib] c
    by simp
qed

subsection \<open>LoadKeyPair\<close>

text \<open>
  C6, as stated, fails: \<open>tls.X509KeyPair\<close> accepts the pair \<open>note+certA\<close> and \<open>keyA\<close>
  (it skips the block that is no certificate and finds the certificate and its matching
  key), yet \<open>LoadKeyPair\<close> on a new server returns the \<open>LoadKeyPairError\<close>, because
  \<open>pem.Decode\<close> gives it the skipped block to parse; the pool is left without an entry.
\<close>

theorem LoadKeyPair_valid_pair_counterexample:
  "keypair_has_chain stub_lib
   \<and> tls_X509KeyPair stub_lib ''note+certA'' ''keyA''
        = Inr \<lparr>Certificate = [''derA''], PrivateKey = ''keyA''\<rparr>
   \<and> fst (LoadKeyPair stub_lib ''note+certA'' ''keyA'' NewServer world0)
        = Return (Errorf2 LoadKeyPairError ''x509: malformed certificate'')
   \<and> fst (LoadKeyPair stub_lib ''note+certA'' ''keyA'' NewServer world0) \<noteq> Return None
   \<and> Pool (fst (snd (LoadKeyPair stub_lib ''note+certA'' ''keyA'' NewServer world0))) = Some []
   \<and> map_option length
        (Pool (fst (snd (LoadKeyPair stub_lib ''note+certA'' ''keyA'' NewServer world0))))
        \<noteq> Some 1"
  using stub_has_chain
  by (simp add: LoadKeyPair_def stub_key_pairs(3) stub_note_block(1,3) NewCertPool_def
        Errorf2_def)

text \<open>
  C6, amended. For every certificate and key input that \<open>tls.X509KeyPair\<close> accepts and
  whose first PEM block of the certificate input parses as an X.509 certificate,
  \<open>LoadKeyPair\<close> succeeds in every state; afterward the stored credential is the parsed
  key pair, its chain is not empty, and the pool has exactly one entry, the certificate
  parsed from the first PEM block.
\<close>

theorem LoadKeyPair_valid_pair:
  assumes "keypair_has_chain L"
    and "tls_X509KeyPair L cert key = Inr c"
    and "first_certificate L cert = Some ca"
    and "LoadKeyPair L cert key h w = (r, h', w')"
  shows "r = Return None \<and> Cert h' = c \<and> Certificate (Cert h') \<noteq> []
     \<and> Pool h' = Some [ca] \<and> map_option length (Pool h') = Some 1"
  using assms by (auto simp: LoadKeyPair_success keypair_has_chain_def)

theorem LoadKeyPair_valid_pair_witness:
  "keypair_has_chain stub_lib
   \<and> tls_X509KeyPair stub_lib ''certA'' ''keyA''
       = Inr \<lparr>Certificate = [''derA''], PrivateKey = ''keyA''\<rparr>
   \<and> first_certificate stub_lib ''certA'' = Some (X509 ''derA'')
   \<and> fst (LoadKeyPair stub_lib ''certA'' ''keyA'' NewServer world0) = Return None
   \<and> Certificate (Cert (fst loaded_A)) = [''derA'']
   \<and> Pool (fst loaded_A) = Some [X509 ''derA'']"
  using LoadKeyPair_valid_pair [OF stub_has_chain stub_key_pairs(1) stub_first_certificate(1),
      of NewServer world0 "fst (LoadKeyPair stub_lib ''certA'' ''keyA'' NewServer world0)"
        "fst loaded_A" "snd loaded_A"]
    stub_has_chain stub_key_pairs(1) stub_first_certificate(1)
  by (simp add: loaded_A_def)

text \<open>
  C7. After a successful \<open>LoadKeyPair\<close> and any number of \<open>AddClientCACert\<close> calls, a
  second \<open>LoadKeyPair\<close> with a valid pair succeeds, stores the second key pair and
  leaves a pool whose only entry is the certificate of the second call: whatever was
  added since the first load is gone.
\<close>

theorem LoadKeyPair_again_resets:
  assumes "LoadKeyPair L cert1 key1 h0 w0 = (Return None, h1, w1)"
    and "AddClientCACerts L certs h1 w1 = (rs, h2, w2)"
    and "tls_X509KeyPair L cert2 key2 = Inr c2"
    and "first_certificate L cert2 = Some ca2"
    and "LoadKeyPair L cert2 key2 h2 w2 = (r, h3, w3)"
  shows "r = Return None \<and> Cert h3 = c2 \<and> Pool h3 = Some [ca2]
     \<and> map_option set (Pool h3) = Some {ca2}"
  using assms(3-5) by (auto simp: LoadKeyPair_success)

theorem LoadKeyPair_again_resets_witness:
  "LoadKeyPair stub_lib ''certA'' ''keyA'' NewServer world0
     = (Return None, fst loaded_A, snd loaded_A)
   \<and> Pool (fst loaded_A_added_C) = Some [X509 ''derA'', X509 ''derC'']
   \<and> fst (LoadKeyPair stub_lib ''certB'' ''keyB'' (fst loaded_A_added_C) (snd loaded_A_added_C))
        = Return None
   \<and> Cert (fst reloaded_B) = \<lparr>Certificate = [''derB''], PrivateKey = ''keyB''\<rparr>
   \<and> Pool (fst reloaded_B) = Some [X509 ''derB'']"
proof -
  have 1: "LoadKeyPair stub_lib ''certA'' ''keyA'' NewServer world0
     = (Return None, fst loaded_A, snd loaded_A)"
    by (simp add: loaded_A_def LoadKeyPair_success [OF stub_key_pairs(1) stub_first_certificate(1)])
  have 2: "AddClientCACerts stub_lib [''certC''] (fst loaded_A) (snd loaded_A)
     = (fst (AddClientCACerts stub_lib [''certC''] (fst loaded_A) (snd loaded_A)),
        fst loaded_A_added_C, snd loaded_A_added_C)"
    by (simp add: loaded_A_added_C_def)
  have 3: "LoadKeyPair stub_lib ''certB'' ''keyB'' (fst loaded_A_added_C) (snd loaded_A_added_C)
     = (fst (LoadKeyPair stub_lib ''certB'' ''keyB'' (fst loaded_A_added_C)
              (snd loaded_A_added_C)), fst reloaded_B, snd reloaded_B)"
    by (simp add: reloaded_B_def)
  from LoadKeyPair_again_resets [OF 1 2 stub_key_pairs(2) stub_first_certificate(2) 3] 1
  show ?thesis by (simp add: loaded_A_added_C_eq)
qed

text \<open>
  C10. When \<open>tls.X509KeyPair\<close> accepts the pair but the first PEM block of the
  certificate input does not parse as a certificate, \<open>LoadKeyPair\<close> returns the
  \<open>LoadKeyPairError\<close> and yet has stored the key pair, next to an empty pool. A \<open>Start\<close>
  right after it does not return the \<open>NoKeyPairLoad\<close> error: it calls \<open>tls.Listen\<close>
  with the stored key pair and the empty pool.
\<close>

theorem LoadKeyPair_reparse_fails:
  assumes "keypair_has_chain L"
    and "tls_X509KeyPair L cert key = Inr c"
    and "pem_Decode L cert = Some b"
    and "x509_ParseCertificate L (Bytes b) = Inl err"
    and "LoadKeyPair L cert key h w = (r, h', w')"
    and "Start L h' w' = (r', h'', w'')"
  shows "r = Return (Errorf2 LoadKeyPairError err) \<and> Cert h' = c \<and> Pool h' = Some []
     \<and> r' \<noteq> Return (Errorf1 NoKeyPairLoad)
     \<and> listens w'' = listens w @
          [(''tcp'', Host (options h) @ '':'' @ Itoa (Port (options h)),
            \<lparr>ClientAuth = TLSAuthType (options h), Certificates = [c], ClientCAs = Some []\<rparr>)]"
proof -
  from assms(2-5) have l: "r = Return (Errorf2 LoadKeyPairError err)"
    "h' = h\<lparr>Pool := Some [], Cert := c\<rparr>" "w' = w"
    by (auto simp: LoadKeyPair_def Let_def NewCertPool_def)
  from assms(1,2) have c: "Certificate c \<noteq> []"
    by (auto simp: keypair_has_chain_def)
  have ne: "Errorf2 StartServerError e \<noteq> Errorf1 NoKeyPairLoad" for e
    by (simp add: Errorf2_def Errorf1_def StartServerError_def NoKeyPairLoad_def)
  from assms(6) l c ne show ?thesis
    by (auto simp: Start_def Let_def Errorf1_def split: sum.splits)
qed

theorem LoadKeyPair_reparse_fails_witness:
  "keypair_has_chain stub_lib
   \<and> tls_X509KeyPair stub_lib ''note+certA'' ''keyA''
        = Inr \<lparr>Certificate = [''derA''], PrivateKey = ''keyA''\<rparr>
   \<and> pem_Decode stub_lib ''note+certA'' = Some \<lparr>Type = ''NOTE'', Bytes = ''note''\<rparr>
   \<and> x509_ParseCertificate stub_lib ''note'' = Inl ''x509: malformed certificate''
   \<and> fst (LoadKeyPair stub_lib ''note+certA'' ''keyA'' NewServer world0)
        = Return (Errorf2 LoadKeyPairError ''x509: malformed certificate'')
   \<and> Certificate (Cert (fst half_loaded)) = [''derA'']
   \<and> Pool (fst half_loaded) = Some []
   \<and> fst (Start stub_lib (fst half_loaded) (snd half_loaded)) \<noteq> Return (Errorf1 NoKeyPairLoad)
   \<and> map (\<lambda>(n, a, c). ClientCAs c)
        (listens (snd (snd (Start stub_lib (fst half_loaded) (snd half_loaded))))) = [Some []]"
  using LoadKeyPair_reparse_fails [OF stub_has_chain stub_key_pairs(3) stub_note_block(1,2),
      of NewServer world0 "fst (LoadKeyPair stub_lib ''note+certA'' ''keyA'' NewServer world0)"
        "fst half_loaded" "snd half_loaded"
        "fst (Start stub_lib (fst half_loaded) (snd half_loaded))"
        "fst (snd (Start stub_lib (fst half_loaded) (snd half_loaded)))"
        "snd (snd (Start stub_lib (fst half_loaded) (snd half_loaded)))"]
    stub_has_chain stub_key_pairs(3) stub_note_block
  by (simp add: half_loaded_def world0_def)

subsection \<open>Log level 0\<close>

text \<open>
  C9. When the log level that the server holds is 0, none of \<open>Config\<close>, \<open>LoadKeyPair\<close>,
  \<open>AddClientCACert\<close>, \<open>Start\<close> and \<open>Accept\<close> writes anything, whatever it returns: what
  has been written to the writers is the same after the call as before.
\<close>

theorem level_zero_writes_nothing:
  assumes "LogLevel (options h) = 0"
  shows "written (snd (Config o' h w)) = written w
     \<and> written (snd (snd (LoadKeyPair L cert key h w))) = written w
     \<and> written (snd (snd (AddClientCACert L cert' h w))) = written w
     \<and> written (snd (snd (Start L h w))) = written w
     \<and> written (snd (snd (Accept L h w))) = written w"
proof -
  have "written (snd (Config o' h w)) = written w"
    using assms by (simp add: Config_def Let_def)
  moreover have "written (snd (snd (LoadKeyPair L cert key h w))) = written w"
    using assms by (simp add: LoadKeyPair_def Let_def split: sum.splits option.splits)
  moreover have "written (snd (snd (AddClientCACert L cert' h w))) = written w"
    using assms by (simp add: AddClientCACert_def Let_def split: sum.splits option.splits)
  moreover have "written (snd (snd (Start L h w))) = written w"
    using assms by (simp add: Start_def Let_def split: sum.splits)
  moreover have "written (snd (snd (Accept L h w))) = written w"
    using assms by (simp add: Accept_def Let_def split: sum.splits option.splits)
  ultimately show ?thesis by simp
qed

theorem level_zero_writes_nothing_witness:
  "LogLevel (options (fst loaded_A)) = 0
   \<and> written (snd loaded_A) = []
   \<and> written (snd (Config ((options NewServer)\<lparr>Port := 0\<rparr>) (fst loaded_A) (snd loaded_A))) = []
   \<and> written (snd (snd (LoadKeyPair stub_lib ''certB'' ''keyB'' (fst loaded_A) (snd loaded_A)))) = []
   \<and> written (snd (snd (AddClientCACert stub_lib ''certB'' (fst loaded_A) (snd loaded_A)))) = []
   \<and> written (snd (snd (Start stub_lib (fst loaded_A) (snd loaded_A)))) = []
   \<and> written (snd (snd (Accept stub_lib (fst loaded_A) (snd loaded_A)))) = []"
proof -
  have l: "LogLevel (options (fst loaded_A)) = 0"
    by (simp add: loaded_A_eq NewServer_def)
  have w: "written (snd loaded_A) = []"
    by (simp add: loaded_A_eq world0_def)
  from level_zero_writes_nothing [OF l, of "(options NewServer)\<lparr>Port := 0\<rparr>" "snd loaded_A"
      stub_lib "''certB''" "''keyB''" "''certB''"] l w
  show ?thesis by simp
qed

subsection \<open>Adding client CA certificates\<close>

lemma set_foldl_AddCert:
  "set (foldl (\<lambda>p ca. AddCert ca p) p cas) = set p \<union> set cas"
  by (induction cas arbitrary: p) (auto simp: AddCert_def)

lemma foldl_AddCert_distinct:
  "distinct (p @ cas) \<Longrightarrow> foldl (\<lambda>p ca. AddCert ca p) p cas = p @ cas"
proof (induction cas arbitrary: p)
  case Nil
  then show ?case by simp
next
  case (Cons ca cas)
  from Cons.prems have "ca \<notin> set p" and "distinct ((p @ [ca]) @ cas)"
    by auto
  with Cons.IH [of "p @ [ca]"] show ?case
    by (simp add: AddCert_def)
qed

lemma AddClientCACerts_valid:
  assumes "Pool h = Some p"
    and "map (first_certificate L) certs = map Some cas"
    and "AddClientCACerts L certs h w = (rs, h', w')"
  shows "rs = replicate (length certs) (Return None)
     \<and> Pool h' = Some (foldl (\<lambda>p ca. AddCert ca p) p cas)"
  using assms
proof (induction certs arbitrary: h w p cas rs h' w')
  case Nil
  then show ?case by simp
next
  case (Cons cert certs)
  from Cons.prems(2) obtain ca cas' where cas: "cas = ca # cas'"
    and ca: "first_certificate L cert = Some ca"
    and rest: "map (first_certificate L) certs = map Some cas'"
    by (cases cas) auto
  let ?h1 = "h\<lparr>Pool := Some (AddCert ca p)\<rparr>"
  let ?w1 = "log ''load client CA cert ok'' 2 h w"
  have step: "AddClientCACert L cert h w = (Return None, ?h1, ?w1)"
    using ca Cons.prems(1) by (rule AddClientCACert_success)
  obtain rs1 where tail: "AddClientCACerts L certs ?h1 ?w1 = (rs1, h', w')" and rs: "rs = Return None # rs1"
    using Cons.prems(3) step by (auto split: prod.splits)
  have "Pool ?h1 = Some (AddCert ca p)" by simp
  from Cons.IH [OF this rest tail] rs cas show ?case by simp
qed

lemma valid_inputs_parsed:
  assumes "\<forall>c \<in> set certs. first_certificate L c \<noteq> None"
  shows "map (first_certificate L) certs = map Some (map (\<lambda>c. the (first_certificate L c)) certs)"
  using assms by (induction certs) auto

text \<open>
  C8, as stated, fails: after \<open>LoadKeyPair\<close> of \<open>certA\<close> and \<open>keyA\<close>, adding the one
  valid CA certificate \<open>certA\<close> succeeds and leaves a pool of one entry, not of two. The
  pool does not take a certificate that it already holds.
\<close>

theorem AddClientCACerts_own_certificate_counterexample:
  "LoadKeyPair stub_lib ''certA'' ''keyA'' NewServer world0
     = (Return None, fst loaded_A, snd loaded_A)
   \<and> first_certificate stub_lib ''certA'' = Some (X509 ''derA'')
   \<and> distinct [X509 ''derA'']
   \<and> fst (AddClientCACerts stub_lib [''certA''] (fst loaded_A) (snd loaded_A)) = [Return None]
   \<and> Pool (fst (snd (AddClientCACerts stub_lib [''certA''] (fst loaded_A) (snd loaded_A))))
        = Some [X509 ''derA'']
   \<and> map_option length
        (Pool (fst (snd (AddClientCACerts stub_lib [''certA''] (fst loaded_A) (snd loaded_A)))))
        \<noteq> Some (length [''certA''] + 1)"
  by (simp add: loaded_A_def LoadKeyPair_success [OF stub_key_pairs(1) stub_first_certificate(1)]
        stub_first_certificate(1) AddCert_def
        AddClientCACert_success [OF stub_first_certificate(1)])

text \<open>
  C8, amended. After a successful \<open>LoadKeyPair\<close>, adding \<open>N\<close> valid CA certificates
  that are distinct from one another and from the certificate that \<open>LoadKeyPair\<close> put
  in the pool succeeds \<open>N\<close> times and gives a pool of \<open>N + 1\<close> entries: that certificate,
  then the \<open>N\<close> added ones. Adding the same inputs in any other order gives a pool with
  the same members.
\<close>

theorem AddClientCACerts_pool:
  assumes "LoadKeyPair L cert0 key0 h0 w0 = (Return None, h, w)"
    and "first_certificate L cert0 = Some ca0"
    and "map (first_certificate L) certs = map Some cas"
    and "distinct (ca0 # cas)"
    and "AddClientCACerts L certs h w = (rs, h', w')"
    and "mset certs' = mset certs"
    and "AddClientCACerts L certs' h w = (rs', h'', w'')"
  shows "rs = replicate (length certs) (Return None)
     \<and> Pool h' = Some (ca0 # cas)
     \<and> map_option length (Pool h') = Some (length certs + 1)
     \<and> rs' = replicate (length certs) (Return None)
     \<and> map_option set (Pool h'') = map_option set (Pool h')"
proof -
  from LoadKeyPair_success_only [OF assms(1)] obtain c0 where
    c0: "tls_X509KeyPair L cert0 key0 = Inr c0" by auto
  from assms(1) have p: "Pool h = Some [ca0]"
    by (auto simp: LoadKeyPair_success [OF c0 assms(2)])
  from assms(3) have len: "length cas = length certs"
    by (metis length_map)
  have fold: "foldl (\<lambda>p ca. AddCert ca p) [ca0] cas = ca0 # cas"
    using foldl_AddCert_distinct [of "[ca0]" cas] assms(4) by simp
  from AddClientCACerts_valid [OF p assms(3) assms(5)] fold
  have first: "rs = replicate (length certs) (Return None)" "Pool h' = Some (ca0 # cas)"
    by simp_all
  from assms(6) have sets: "set certs' = set certs" and len': "length certs' = length certs"
    by (auto dest: mset_eq_setD mset_eq_length)
  have valid: "\<forall>c \<in> set certs. first_certificate L c \<noteq> None"
  proof
    fix c assume "c \<in> set certs"
    then have "first_certificate L c \<in> set (map (first_certificate L) certs)" by simp
    with assms(3) show "first_certificate L c \<noteq> None" by auto
  qed
  let ?cas' = "map (\<lambda>c. the (first_certificate L c)) certs'"
  from valid sets have m': "map (first_certificate L) certs' = map Some ?cas'"
    by (intro valid_inputs_parsed) simp
  have "Some ` set ?cas' = set (map (first_certificate L) certs')"
    using m' by (metis set_map)
  also have "\<dots> = set (map (first_certificate L) certs)"
    using sets by simp
  also have "\<dots> = Some ` set cas"
    using assms(3) by (metis set_map)
  finally have same: "set ?cas' = set cas"
    by (simp add: inj_image_eq_iff)
  from AddClientCACerts_valid [OF p m' assms(7)] len'
  have second: "rs' = replicate (length certs) (Return None)"
    "Pool h'' = Some (foldl (\<lambda>p ca. AddCert ca p) [ca0] ?cas')"
    by simp_all
  from first second same len show ?thesis
    by (simp add: set_foldl_AddCert)
qed

theorem AddClientCACerts_pool_witness:
  "LoadKeyPair stub_lib ''certA'' ''keyA'' NewServer world0
     = (Return None, fst loaded_A, snd loaded_A)
   \<and> map (first_certificate stub_lib) [''certB'', ''certC''] = map Some [X509 ''derB'', X509 ''derC'']
   \<and> distinct [X509 ''derA'', X509 ''derB'', X509 ''derC'']
   \<and> mset [''certC'', ''certB''] = mset [''certB'', ''certC'']
   \<and> fst (AddClientCACerts stub_lib [''certB'', ''certC''] (fst loaded_A) (snd loaded_A))
        = [Return None, Return None]
   \<and> Pool (fst (snd (AddClientCACerts stub_lib [''certB'', ''certC''] (fst loaded_A) (snd loaded_A))))
        = Some [X509 ''derA'', X509 ''derB'', X509 ''derC'']
   \<and> map_option set
        (Pool (fst (snd (AddClientCACerts stub_lib [''certC'', ''certB''] (fst loaded_A) (snd loaded_A)))))
        = Some {X509 ''derA'', X509 ''derB'', X509 ''derC''}"
proof -
  have 1: "LoadKeyPair stub_lib ''certA'' ''keyA'' NewServer world0
     = (Return None, fst loaded_A, snd loaded_A)"
    by (simp add: loaded_A_def LoadKeyPair_success [OF stub_key_pairs(1) stub_first_certificate(1)])
  have 2: "map (first_certificate stub_lib) [''certB'', ''certC'']
     = map Some [X509 ''derB'', X509 ''derC'']"
    by (simp add: stub_first_certificate)
  have 3: "distinct (X509 ''derA'' # [X509 ''derB'', X509 ''derC''])"
    by simp
  have 4: "mset [''certC'', ''certB''] = mset [''certB'', ''certC'']"
    by simp
  have 5: "AddClientCACerts stub_lib cs (fst loaded_A) (snd loaded_A)
     = (fst (AddClientCACerts stub_lib cs (fst loaded_A) (snd loaded_A)),
        fst (snd (AddClientCACerts stub_lib cs (fst loaded_A) (snd loaded_A))),
        snd (snd (AddClientCACerts stub_lib cs (fst loaded_A) (snd loaded_A))))" for cs
    by simp
  from AddClientCACerts_pool [OF 1 stub_first_certificate(1) 2 3 5 4 5] 1 2 3 4
  show ?thesis by simp
qed

subsection \<open>Error returns\<close>

text \<open>
  C3, as stated, fails: in a server that holds the key pair and the pool of \<open>certA\<close>, a
  \<open>LoadKeyPair\<close> that fails because the certificate and the key do not match returns its
  error and leaves the pool empty. The pool is replaced before anything is parsed.
\<close>

theorem LoadKeyPair_failure_resets_pool_counterexample:
  "Cert (fst loaded_A) = \<lparr>Certificate = [''derA''], PrivateKey = ''keyA''\<rparr>
   \<and> Pool (fst loaded_A) = Some [X509 ''derA'']
   \<and> tls_X509KeyPair stub_lib ''certA'' ''keyB''
        = Inl ''tls: private key does not match public key''
   \<and> fst (LoadKeyPair stub_lib ''certA'' ''keyB'' (fst loaded_A) (snd loaded_A))
        = Return (Errorf2 LoadKeyPairError ''tls: private key does not match public key'')
   \<and> Pool (fst (snd (LoadKeyPair stub_lib ''certA'' ''keyB'' (fst loaded_A) (snd loaded_A))))
        = Some []
   \<and> fst (snd (LoadKeyPair stub_lib ''certA'' ''keyB'' (fst loaded_A) (snd loaded_A)))
        \<noteq> fst loaded_A"
proof -
  have "Pool (fst (snd (LoadKeyPair stub_lib ''certA'' ''keyB'' (fst loaded_A) (snd loaded_A))))
        = Some []"
    by (simp add: LoadKeyPair_def stub_key_pairs(4) NewCertPool_def)
  moreover have "Pool (fst loaded_A) = Some [X509 ''derA'']"
    by (simp add: loaded_A_eq)
  ultimately have "fst (snd (LoadKeyPair stub_lib ''certA'' ''keyB'' (fst loaded_A) (snd loaded_A)))
        \<noteq> fst loaded_A"
    by auto
  then show ?thesis
    by (simp add: LoadKeyPair_def stub_key_pairs(4) NewCertPool_def loaded_A_eq)
qed

text \<open>
  C3, amended. The methods are functions of their arguments, of the server and of what
  the library answers. An error return of \<open>AddClientCACert\<close> leaves the server and the
  world as they were. An error return of \<open>Start\<close> leaves the server as it was and writes
  nothing. An error return of \<open>Accept\<close> leaves the server as it was, returns no
  connection and writes at most its one error line. An error return of \<open>LoadKeyPair\<close>
  writes nothing and leaves the options, the listener, the log destination and \<open>IsSet\<close>
  as they were, but the pool is a new, empty one; the stored credential is the old one
  when the pair itself was refused, and the new pair when only the first PEM block of the
  certificate input failed to parse.
\<close>

theorem error_returns_frame:
  "(AddClientCACert L cert h w = (Return (Some e), h', w') \<longrightarrow> h' = h \<and> w' = w)
   \<and> (Start L hs ws = (Return (Some es), hs', ws') \<longrightarrow> hs' = hs \<and> written ws' = written ws)
   \<and> (Accept L ha wa = (Return (conn, Some ea), ha', wa') \<longrightarrow>
         ha' = ha \<and> conn = None
         \<and> (written wa' = written wa
              \<or> (\<exists>err. written wa' = written wa @
                    [(logDestination ha, ''herots srv: accept conn error: '' @ err @ newline)])))
   \<and> (LoadKeyPair L certl keyl hl wl = (Return (Some el), hl', wl') \<longrightarrow>
         wl' = wl \<and> options hl' = options hl \<and> listener hl' = listener hl
         \<and> logDestination hl' = logDestination hl \<and> IsSet hl' = IsSet hl
         \<and> Pool hl' = Some []
         \<and> (case tls_X509KeyPair L certl keyl of
               Inl err \<Rightarrow> Cert hl' = Cert hl
             | Inr c \<Rightarrow> Cert hl' = c))"
proof -
  have a: "AddClientCACert L cert h w = (Return (Some e), h', w') \<longrightarrow> h' = h \<and> w' = w"
    by (auto simp: AddClientCACert_def Let_def split: option.splits sum.splits)
  have s: "Start L hs ws = (Return (Some es), hs', ws') \<longrightarrow> hs' = hs \<and> written ws' = written ws"
    by (auto simp: Start_def Let_def split: if_splits sum.splits)
  have c: "Accept L ha wa = (Return (conn, Some ea), ha', wa') \<longrightarrow>
         ha' = ha \<and> conn = None
         \<and> (written wa' = written wa
              \<or> (\<exists>err. written wa' = written wa @
                    [(logDestination ha, ''herots srv: accept conn error: '' @ err @ newline)]))"
    by (auto simp: Accept_def Let_def log_written split: option.splits sum.splits)
  have l: "LoadKeyPair L certl keyl hl wl = (Return (Some el), hl', wl') \<longrightarrow>
         wl' = wl \<and> options hl' = options hl \<and> listener hl' = listener hl
         \<and> logDestination hl' = logDestination hl \<and> IsSet hl' = IsSet hl
         \<and> Pool hl' = Some []
         \<and> (case tls_X509KeyPair L certl keyl of
               Inl err \<Rightarrow> Cert hl' = Cert hl
             | Inr c \<Rightarrow> Cert hl' = c)"
    by (auto simp: LoadKeyPair_def Let_def NewCertPool_def split: option.splits sum.splits)
  from a s c l show ?thesis by blast
qed

theorem error_returns_frame_witness:
  "AddClientCACert stub_lib ''note+certA'' (fst loaded_A) (snd loaded_A)
     = (Return (Errorf2 LoadClientCaCertError ''x509: malformed certificate''),
        fst loaded_A, snd loaded_A)
   \<and> fst (Start stub_lib (fst started_A) (snd started_A))
        = Return (Errorf2 StartServerError ''listen tcp: address already in use'')
   \<and> fst (snd (Start stub_lib (fst started_A) (snd started_A))) = fst started_A
   \<and> fst (Accept stub_lib (fst accepted_A) (snd accepted_A))
        = Return (None, Errorf2 AcceptConnError ''use of closed network connection'')
   \<and> fst (snd (Accept stub_lib (fst accepted_A) (snd accepted_A))) = fst accepted_A
   \<and> fst (LoadKeyPair stub_lib ''certA'' ''keyB'' (fst loaded_A) (snd loaded_A))
        = Return (Errorf2 LoadKeyPairError ''tls: private key does not match public key'')
   \<and> Cert (fst (snd (LoadKeyPair stub_lib ''certA'' ''keyB'' (fst loaded_A) (snd loaded_A))))
        = Cert (fst loaded_A)
   \<and> Pool (fst (snd (LoadKeyPair stub_lib ''certA'' ''keyB'' (fst loaded_A) (snd loaded_A))))
        = Some []"
proof -
  let ?add = "AddClientCACert stub_lib ''note+certA'' (fst loaded_A) (snd loaded_A)"
  let ?start = "Start stub_lib (fst started_A) (snd started_A)"
  let ?accept = "Accept stub_lib (fst accepted_A) (snd accepted_A)"
  let ?load = "LoadKeyPair stub_lib ''certA'' ''keyB'' (fst loaded_A) (snd loaded_A)"
  have a1: "fst ?add = Return (Some (LoadClientCaCertError @ '': ''
      @ ''x509: malformed certificate'' @ newline))"
    by (simp add: AddClientCACert_def stub_note_block(1,3) Errorf2_def)
  have s1: "fst ?start = Return (Some (StartServerError @ '': ''
      @ ''listen tcp: address already in use'' @ newline))"
    by (simp add: started_A_eq loaded_A_eq Start_def NewServer_def world0_def stub_lib_def
        stub_Listen_def Let_def Errorf2_def)
  have c1: "fst ?accept = Return (None, Some (AcceptConnError @ '': ''
      @ ''use of closed network connection'' @ newline))"
    by (simp add: accepted_A_eq started_A_eq loaded_A_eq Accept_def NewServer_def world0_def
        stub_lib_def stub_Accept_def Let_def Errorf2_def)
  have l1: "fst ?load = Return (Some (LoadKeyPairError @ '': ''
      @ ''tls: private key does not match public key'' @ newline))"
    by (simp add: LoadKeyPair_def stub_key_pairs(4) Errorf2_def)
  have a: "?add = (Return (Some (LoadClientCaCertError @ '': '' @ ''x509: malformed certificate''
      @ newline)), fst (snd ?add), snd (snd ?add))"
    using a1 by (metis prod.collapse)
  have s: "?start = (Return (Some (StartServerError @ '': ''
      @ ''listen tcp: address already in use'' @ newline)), fst (snd ?start), snd (snd ?start))"
    using s1 by (metis prod.collapse)
  have c: "?accept = (Return (None, Some (AcceptConnError @ '': ''
      @ ''use of closed network connection'' @ newline)), fst (snd ?accept), snd (snd ?accept))"
    using c1 by (metis prod.collapse)
  have l: "?load = (Return (Some (LoadKeyPairError @ '': ''
      @ ''tls: private key does not match public key'' @ newline)),
      fst (snd ?load), snd (snd ?load))"
    using l1 by (metis prod.collapse)
  note frame = error_returns_frame [where L = stub_lib
      and cert = "''note+certA''" and h = "fst loaded_A" and w = "snd loaded_A"
      and certl = "''certA''" and keyl = "''keyB''" and hl = "fst loaded_A" and wl = "snd loaded_A"
      and hs = "fst started_A" and ws = "snd started_A"
      and ha = "fst accepted_A" and wa = "snd accepted_A"]
  note fa = frame [THEN conjunct1, THEN mp, OF a]
  note fs = frame [THEN conjunct2, THEN conjunct1, THEN mp, OF s]
  note fc = frame [THEN conjunct2, THEN conjunct2, THEN conjunct1, THEN mp, OF c]
  note fl = frame [THEN conjunct2, THEN conjunct2, THEN conjunct2, THEN mp, OF l]
  have add: "?add = (Return (Errorf2 LoadClientCaCertError ''x509: malformed certificate''),
        fst loaded_A, snd loaded_A)"
    using a fa by (simp add: Errorf2_def)
  from add s1 fs c1 fc l1 fl show ?thesis
    by (simp add: stub_key_pairs(4) Errorf2_def)
qed

end
